theory Spec2Isabelle
  imports Complex_Main "HOL-Library.Sublist" "HOL-Library.AList"
begin

section \<open>Python values, exceptions and observable events\<close>

text \<open>
  A Python \<open>str\<close> is a list of characters; \<open>s[:n]\<close> is \<open>take n s\<close> and the
  \<open>in\<close> test on strings is \<open>sublist\<close>. An \<open>Optional[str]\<close> is a \<open>string option\<close>.
  The values that \<open>json.loads\<close> and the provider clients hand back are \<open>pyval\<close>s; the
  keys of a JSON object are always strings. A float is kept by its \<open>repr\<close>.
\<close>

datatype pyval =
    PNone
  | PBool bool
  | PInt int
  | PFloat string
  | PStr string
  | PList "pyval list"
  | PDict "(string \<times> pyval) list"

text \<open>
  Exceptions are values: the class and \<open>str(e)\<close>. \<open>OtherException\<close> carries the class
  name of an exception raised by a library (a provider error, say). Every class here is
  a subclass of \<open>Exception\<close>, which is what \<open>except Exception\<close> catches.
\<close>

datatype exc_class =
    RuntimeError | ValueError | ImportError | TypeError | IndexError | KeyError
  | AttributeError | JSONDecodeError | OtherException string

datatype py_error = PyError (exc_type: exc_class) (exc_str: string)

datatype torch_dtype = Float16 | Float32

text \<open>
  What a run does to the outside world, in order: lines printed (the arguments of
  \<open>print\<close>, after \<open>str\<close>), reads of the process environment, and the calls made to the
  libraries and collaborators. A call is recorded when it is attempted, before it
  returns or raises.
\<close>

datatype event =
    Print "string list"
  | GetEnv string
  | OpenAINew string
  | OpenAIChatCreate string "(string \<times> string) list" rat
  | PipelineNew string string string torch_dtype
  | PipelineCall string nat bool
  | InferenceClientNew string string
  | TextGeneration string nat rat
  | ChatCompletion "(string \<times> string) list" nat
  | ParseIntent string
  | BuildMetaPrompt string pyval
  | ValidateFileTree pyval
  | WriteFileTree pyval string

type_synonym 'a io = "event list \<times> (py_error + 'a)"

definition returns :: "'a \<Rightarrow> 'a io" where
  "returns x = ([], Inr x)"

definition raises :: "py_error \<Rightarrow> 'a io" where
  "raises e = ([], Inl e)"

definition emit :: "event \<Rightarrow> unit io" where
  "emit ev = ([ev], Inr ())"

text \<open>An external call: the attempt is recorded, then it returns or raises.\<close>

definition call :: "event \<Rightarrow> (py_error + 'a) \<Rightarrow> 'a io" where
  "call ev r = ([ev], r)"

text \<open>Sequencing: an exception ends the run, the events so far are kept.\<close>

definition io_bind :: "'a io \<Rightarrow> ('a \<Rightarrow> 'b io) \<Rightarrow> 'b io" where
  "io_bind m f =
     (case m of
        (es, Inl e) \<Rightarrow> (es, Inl e)
      | (es, Inr x) \<Rightarrow> (case f x of (es', r) \<Rightarrow> (es @ es', r)))"

definition nl :: string where
  "nl = [CHR 0x0A]"

definition quote :: string where
  "quote = [CHR 0x27]"

text \<open>Truthiness of an \<open>Optional[str]\<close>: \<open>None\<close> and the empty string are falsy.\<close>

definition truthy :: "string option \<Rightarrow> bool" where
  "truthy x = (case x of None \<Rightarrow> False | Some s \<Rightarrow> s \<noteq> [])"

section \<open>The libraries and collaborators the code calls\<close>

text \<open>
  None of these is code of the repository, so each is a parameter. A client object is
  the record of its methods. \<open>choices\<close> of a chat completion are given by the contents
  of their messages.
\<close>

record openai_client =
  chat_completions_create ::
    "string \<Rightarrow> (string \<times> string) list \<Rightarrow> rat \<Rightarrow> py_error + pyval list"

type_synonym pipeline = "string \<Rightarrow> nat \<Rightarrow> bool \<Rightarrow> py_error + (string \<times> pyval) list list"

record hf_client =
  text_generation :: "string \<Rightarrow> nat \<Rightarrow> rat \<Rightarrow> py_error + pyval"
  chat_completion :: "(string \<times> string) list \<Rightarrow> nat \<Rightarrow> py_error + pyval list"

text \<open>
  \<open>OpenAI\<close> and \<open>InferenceClient\<close> are \<open>None\<close> when their import failed (both modules
  guard the import). \<open>environ\<close> is the process environment behind \<open>os.getenv\<close>.
  \<open>json_loads\<close> is \<open>json.loads\<close> on a \<open>str\<close>; \<open>py_repr\<close> is \<open>str\<close> on a value that is
  not a \<open>str\<close>.
\<close>

record runtime =
  environ :: "string \<Rightarrow> string option"
  OpenAI :: "(string \<Rightarrow> py_error + openai_client) option"
  cuda_is_available :: bool
  transformers_pipeline :: "string \<Rightarrow> string \<Rightarrow> string \<Rightarrow> torch_dtype \<Rightarrow> py_error + pipeline"
  InferenceClient :: "(string \<Rightarrow> string \<Rightarrow> py_error + hf_client) option"
  json_loads :: "string \<Rightarrow> py_error + pyval"
  py_repr :: "pyval \<Rightarrow> string"
  parse_intent :: "string \<Rightarrow> py_error + pyval"
  build_meta_prompt :: "string \<Rightarrow> pyval \<Rightarrow> py_error + string"
  validate_file_tree :: "pyval \<Rightarrow> py_error + string list"
  write_file_tree :: "pyval \<Rightarrow> string \<Rightarrow> py_error + unit"

text \<open>\<open>x or os.getenv(name)\<close>: the environment is read only when \<open>x\<close> is falsy.\<close>

definition or_getenv :: "runtime \<Rightarrow> string option \<Rightarrow> string \<Rightarrow> string option io" where
  "or_getenv rt x name =
     (if truthy x then returns x
      else io_bind (emit (GetEnv name)) (\<lambda>_. returns (environ rt name)))"

text \<open>\<open>type(v).__name__\<close>, as the messages of Python's own errors print it.\<close>

definition type_name :: "pyval \<Rightarrow> string" where
  "type_name v =
     (case v of
        PNone \<Rightarrow> ''NoneType'' | PBool _ \<Rightarrow> ''bool'' | PInt _ \<Rightarrow> ''int''
      | PFloat _ \<Rightarrow> ''float'' | PStr _ \<Rightarrow> ''str'' | PList _ \<Rightarrow> ''list''
      | PDict _ \<Rightarrow> ''dict'')"

text \<open>\<open>str(v)\<close> and \<open>json.loads(raw)\<close>, which takes a \<open>str\<close> only.\<close>

definition py_str :: "runtime \<Rightarrow> pyval \<Rightarrow> string" where
  "py_str rt v = (case v of PStr s \<Rightarrow> s | _ \<Rightarrow> py_repr rt v)"

definition loads :: "runtime \<Rightarrow> pyval \<Rightarrow> py_error + pyval" where
  "loads rt raw =
     (case raw of
        PStr s \<Rightarrow> json_loads rt s
      | _ \<Rightarrow>
          Inl (PyError TypeError
            (''the JSON object must be str, bytes or bytearray, not '' @ type_name raw)))"

section \<open>OpenAIBackend\<close>

record OpenAIBackend =
  client :: openai_client

text \<open>\<open>OpenAIBackend.__init__(api_key)\<close>\<close>

definition OpenAIBackend_init :: "runtime \<Rightarrow> string \<Rightarrow> OpenAIBackend io" where
  "OpenAIBackend_init rt key =
     (case OpenAI rt of
        None \<Rightarrow> raises (PyError ImportError ''openai package is required for OpenAIBackend'')
      | Some new \<Rightarrow>
          io_bind (call (OpenAINew key) (new key)) (\<lambda>c. returns \<lparr>client = c\<rparr>))"

text \<open>\<open>xs[0]\<close> on a list.\<close>

definition first :: "'a list \<Rightarrow> py_error + 'a" where
  "first xs = (case xs of [] \<Rightarrow> Inl (PyError IndexError ''list index out of range'') | x # _ \<Rightarrow> Inr x)"

text \<open>
  The dict comprehension \<open>{str(k): str(v) for k, v in file_tree.items()}\<close>: the items
  are stored one by one, a later item replacing an earlier one under the same key.
\<close>

definition coerce_items :: "runtime \<Rightarrow> (string \<times> pyval) list \<Rightarrow> (string \<times> pyval) list" where
  "coerce_items rt items =
     foldl (\<lambda>d (k, v). AList.update k (PStr (py_str rt v)) d) [] items"

text \<open>
  Lines 30 to 37 of \<open>OpenAIBackend.generate_project\<close>: what is done with \<open>raw\<close> once
  the provider has answered.
\<close>

definition OpenAIBackend_parse :: "runtime \<Rightarrow> pyval \<Rightarrow> py_error + pyval" where
  "OpenAIBackend_parse rt raw =
     (case loads rt raw of
        Inl e \<Rightarrow>
          (case (exc_type e, raw) of
             (JSONDecodeError, PStr s) \<Rightarrow>
               Inl (PyError ValueError
                 (''OpenAI backend returned non-JSON output: '' @ exc_str e @ '': '' @ take 200 s))
           | _ \<Rightarrow> Inl e)
      | Inr file_tree \<Rightarrow>
          (case file_tree of
             PDict items \<Rightarrow> Inr (PDict (coerce_items rt items))
           | _ \<Rightarrow> Inl (PyError ValueError ''Expected JSON object mapping file paths to contents'')))"

definition system_message :: string where
  "system_message = ''You are a code scaffolding engine that outputs JSON only.''"

text \<open>\<open>OpenAIBackend.generate_project(meta_prompt, metadata)\<close>\<close>

definition OpenAIBackend_generate_project ::
    "runtime \<Rightarrow> OpenAIBackend \<Rightarrow> string \<Rightarrow> pyval \<Rightarrow> pyval io" where
  "OpenAIBackend_generate_project rt self meta_prompt metadata =
     (let messages = [(''system'', system_message), (''user'', meta_prompt)] in
      io_bind (call (OpenAIChatCreate ''gpt-4o-mini'' messages (2 / 10))
                 (chat_completions_create (client self) ''gpt-4o-mini'' messages (2 / 10)))
        (\<lambda>choices. case first choices of
             Inl e \<Rightarrow> raises e
           | Inr raw \<Rightarrow> ([], OpenAIBackend_parse rt raw)))"

section \<open>HuggingFaceBackend\<close>

definition LOCAL_MODEL :: string where
  "LOCAL_MODEL = ''microsoft/Phi-3-mini-4k-instruct''"

record HuggingFaceBackend =
  model_id :: string
  token :: "string option"
  local_pipeline :: "pipeline option"
  remote_client :: "hf_client option"

text \<open>
  The fields are \<open>self.model_id\<close>, \<open>self.hf_token\<close>, \<open>self.local_pipeline\<close> and
  \<open>self.client\<close>. The body of the \<open>try\<close> in \<open>__init__\<close>:
\<close>

definition load_local :: "runtime \<Rightarrow> string \<Rightarrow> pipeline io" where
  "load_local rt mid =
     io_bind (emit (Print [''[Autoforge] Loading local model:'', mid])) (\<lambda>_.
       let dtype = (if cuda_is_available rt then Float16 else Float32) in
       io_bind (call (PipelineNew ''text-generation'' mid ''auto'' dtype)
                  (transformers_pipeline rt ''text-generation'' mid ''auto'' dtype)) (\<lambda>p.
         io_bind (emit (Print [''[Autoforge] Local model loaded successfully.''])) (\<lambda>_.
           returns p)))"

definition could_not_load :: "string \<Rightarrow> string" where
  "could_not_load mid =
     ''Could not load local model '' @ quote @ mid @ quote @ ''.'' @ nl @
     ''Install it via:  transformers, accelerate, bitsandbytes'' @ nl @
     ''Or set HUGGINGFACE_TOKEN for API fallback.''"

text \<open>\<open>HuggingFaceBackend.__init__(hf_token, model_id)\<close>\<close>

definition HuggingFaceBackend_init ::
    "runtime \<Rightarrow> string option \<Rightarrow> string option \<Rightarrow> HuggingFaceBackend io" where
  "HuggingFaceBackend_init rt hf_token_arg model_id_arg =
     (let mid = (if truthy model_id_arg then the model_id_arg else LOCAL_MODEL) in
      io_bind (or_getenv rt hf_token_arg ''HUGGINGFACE_TOKEN'') (\<lambda>tok.
        case load_local rt mid of
          (es, Inr p) \<Rightarrow>
            (es, Inr \<lparr>model_id = mid, token = tok, local_pipeline = Some p, remote_client = None\<rparr>)
        | (es, Inl e) \<Rightarrow>
            io_bind (es, Inr ()) (\<lambda>_.
            io_bind (emit (Print [''[Autoforge] Local model failed to load:'', exc_str e])) (\<lambda>_.
              if truthy tok \<and> InferenceClient rt \<noteq> None then
                io_bind (emit (Print [''[Autoforge] Falling back to HuggingFace Inference API.''])) (\<lambda>_.
                io_bind (call (InferenceClientNew mid (the tok)) (the (InferenceClient rt) mid (the tok))) (\<lambda>c.
                  returns \<lparr>model_id = mid, token = tok, local_pipeline = None, remote_client = Some c\<rparr>))
              else raises (PyError RuntimeError (could_not_load mid))))))"

text \<open>\<open>d["generated_text"]\<close> on a dict.\<close>

definition generated_text :: "(string \<times> pyval) list \<Rightarrow> py_error + pyval" where
  "generated_text d =
     (case map_of d ''generated_text'' of
        None \<Rightarrow> Inl (PyError KeyError (quote @ ''generated_text'' @ quote))
      | Some v \<Rightarrow> Inr v)"

text \<open>\<open>HuggingFaceBackend._run_local(prompt)\<close>\<close>

definition run_local :: "HuggingFaceBackend \<Rightarrow> string \<Rightarrow> pyval io" where
  "run_local self prompt =
     (case local_pipeline self of
        None \<Rightarrow> raises (PyError TypeError (quote @ ''NoneType'' @ quote @ '' object is not callable''))
      | Some p \<Rightarrow>
          io_bind (call (PipelineCall prompt 1024 False) (p prompt 1024 False)) (\<lambda>out.
            case first out of
              Inl e \<Rightarrow> raises e
            | Inr d \<Rightarrow> ([], generated_text d)))"

text \<open>
  The body of the \<open>try\<close> in \<open>_run_hf\<close>: the hosted text generation call and what is
  read from its answer. \<open>resp.get\<close> exists on a dict only.
\<close>

definition run_hf_text :: "runtime \<Rightarrow> hf_client \<Rightarrow> string \<Rightarrow> pyval io" where
  "run_hf_text rt c prompt =
     io_bind (call (TextGeneration prompt 1024 (2 / 10)) (text_generation c prompt 1024 (2 / 10)))
       (\<lambda>resp. case resp of
            PStr s \<Rightarrow> returns (PStr s)
          | PDict d \<Rightarrow>
              returns (case map_of d ''generated_text'' of
                         Some v \<Rightarrow> v
                       | None \<Rightarrow> PStr (py_str rt resp))
          | _ \<Rightarrow>
              raises (PyError AttributeError
                (quote @ type_name resp @ quote @ '' object has no attribute '' @
                 quote @ ''get'' @ quote)))"

text \<open>The \<open>except Exception\<close> handler of \<open>_run_hf\<close>: the hosted chat completion call.\<close>

definition run_hf_chat :: "hf_client \<Rightarrow> string \<Rightarrow> pyval io" where
  "run_hf_chat c prompt =
     io_bind (call (ChatCompletion [(''user'', prompt)] 1024)
                (chat_completion c [(''user'', prompt)] 1024))
       (\<lambda>choices. ([], first choices))"

text \<open>\<open>HuggingFaceBackend._run_hf(prompt)\<close>\<close>

definition run_hf :: "runtime \<Rightarrow> HuggingFaceBackend \<Rightarrow> string \<Rightarrow> pyval io" where
  "run_hf rt self prompt =
     (case remote_client self of
        None \<Rightarrow>
          raises (PyError AttributeError
            (quote @ ''NoneType'' @ quote @ '' object has no attribute '' @ quote @ ''chat_completion'' @ quote))
      | Some c \<Rightarrow>
          (case run_hf_text rt c prompt of
             (es, Inr r) \<Rightarrow> (es, Inr r)
           | (es, Inl e) \<Rightarrow> io_bind (es, Inr ()) (\<lambda>_. run_hf_chat c prompt)))"

text \<open>
  Lines 108 to 115 of \<open>HuggingFaceBackend.generate_project\<close>: what is done with \<open>raw\<close>
  once the model has answered.
\<close>

definition HuggingFaceBackend_parse :: "runtime \<Rightarrow> pyval \<Rightarrow> py_error + pyval" where
  "HuggingFaceBackend_parse rt raw =
     (case loads rt raw of
        Inl e \<Rightarrow>
          (case (exc_type e, raw) of
             (JSONDecodeError, PStr s) \<Rightarrow>
               Inl (PyError ValueError
                 (''Model did not return valid JSON.'' @ nl @ ''Error: '' @ exc_str e @ nl @ nl @
                  ''Raw output:'' @ nl @ take 400 s @ ''...''))
           | _ \<Rightarrow> Inl e)
      | Inr v \<Rightarrow> Inr v)"

text \<open>\<open>HuggingFaceBackend.generate_project(meta_prompt, metadata)\<close>\<close>

definition HuggingFaceBackend_generate_project ::
    "runtime \<Rightarrow> HuggingFaceBackend \<Rightarrow> string \<Rightarrow> pyval \<Rightarrow> pyval io" where
  "HuggingFaceBackend_generate_project rt self meta_prompt metadata =
     io_bind (if local_pipeline self \<noteq> None then run_local self meta_prompt
              else run_hf rt self meta_prompt)
       (\<lambda>raw. ([], HuggingFaceBackend_parse rt raw))"

section \<open>LiftOff\<close>

text \<open>The two classes share the method name; the call is dispatched on the object.\<close>

datatype backend = OpenAI_obj OpenAIBackend | HuggingFace_obj HuggingFaceBackend

definition generate_project :: "runtime \<Rightarrow> backend \<Rightarrow> string \<Rightarrow> pyval \<Rightarrow> pyval io" where
  "generate_project rt b meta_prompt metadata =
     (case b of
        OpenAI_obj self \<Rightarrow> OpenAIBackend_generate_project rt self meta_prompt metadata
      | HuggingFace_obj self \<Rightarrow> HuggingFaceBackend_generate_project rt self meta_prompt metadata)"

record LiftOff =
  api_key :: "string option"
  hf_token :: "string option"
  output_dir :: string

text \<open>\<open>LiftOff.__init__(api_key, hf_token, output_dir)\<close>\<close>

definition LiftOff_init :: "runtime \<Rightarrow> string option \<Rightarrow> string option \<Rightarrow> string \<Rightarrow> LiftOff io" where
  "LiftOff_init rt api_key_arg hf_token_arg output_dir_arg =
     io_bind (or_getenv rt api_key_arg ''OPENAI_API_KEY'') (\<lambda>k.
     io_bind (or_getenv rt hf_token_arg ''HUGGINGFACE_TOKEN'') (\<lambda>t.
       returns \<lparr>api_key = k, hf_token = t, output_dir = output_dir_arg\<rparr>))"

definition no_backend :: string where
  "no_backend = ''No available backend.'' @ nl @ nl @ ''Set OPENAI_API_KEY or HUGGINGFACE_TOKEN.''"

text \<open>\<open>LiftOff._choose_backend(metadata)\<close>\<close>

definition choose_backend :: "runtime \<Rightarrow> LiftOff \<Rightarrow> pyval \<Rightarrow> backend io" where
  "choose_backend rt self metadata =
     (if truthy (api_key self) then
        io_bind (emit (Print [''[LiftOff] Using OpenAI backend.''])) (\<lambda>_.
        io_bind (OpenAIBackend_init rt (the (api_key self))) (\<lambda>b. returns (OpenAI_obj b)))
      else if truthy (hf_token self) then
        io_bind (emit (Print [''[LiftOff] Using HuggingFace Inference API backend.''])) (\<lambda>_.
        io_bind (HuggingFaceBackend_init rt (hf_token self) None) (\<lambda>b. returns (HuggingFace_obj b)))
      else raises (PyError RuntimeError no_backend))"

text \<open>
  The warning sign that opens the header line of the validator's warnings is outside
  ASCII; it is written here as its six UTF-8 bytes.
\<close>

definition warnings_header :: string where
  "warnings_header =
     [CHR 0xE2, CHR 0x9A, CHR 0xA0, CHR 0xEF, CHR 0xB8, CHR 0x8F] @ ''  Validator warnings:''"

definition print_issues :: "string list \<Rightarrow> unit io" where
  "print_issues issues =
     (if issues \<noteq> [] then
        (Print [warnings_header] # map (\<lambda>issue. Print [''   -'', issue]) issues, Inr ())
      else returns ())"

text \<open>\<open>LiftOff.create(prompt, output_dir)\<close>\<close>

definition create :: "runtime \<Rightarrow> LiftOff \<Rightarrow> string \<Rightarrow> string option \<Rightarrow> unit io" where
  "create rt self prompt output_dir_arg =
     io_bind (emit (Print [''[LiftOff] Parsing intent...''])) (\<lambda>_.
     io_bind (call (ParseIntent prompt) (parse_intent rt prompt)) (\<lambda>metadata.
     io_bind (emit (Print [''[LiftOff] Selecting backend...''])) (\<lambda>_.
     io_bind (choose_backend rt self metadata) (\<lambda>b.
     io_bind (emit (Print [''[LiftOff] Building meta-prompt...''])) (\<lambda>_.
     io_bind (call (BuildMetaPrompt prompt metadata) (build_meta_prompt rt prompt metadata)) (\<lambda>meta_prompt.
     io_bind (emit (Print [''[LiftOff] Generating project from backend...''])) (\<lambda>_.
     io_bind (generate_project rt b meta_prompt metadata) (\<lambda>file_tree.
     io_bind (emit (Print [''[LiftOff] Validating scaffold...''])) (\<lambda>_.
     io_bind (call (ValidateFileTree file_tree) (validate_file_tree rt file_tree)) (\<lambda>issues.
     io_bind (print_issues issues) (\<lambda>_.
       let root = (if truthy output_dir_arg then the output_dir_arg else output_dir self) in
       io_bind (emit (Print [''[LiftOff] Writing project files to: '' @ root])) (\<lambda>_.
       io_bind (call (WriteFileTree file_tree root) (write_file_tree rt file_tree root)) (\<lambda>_.
         emit (Print [''[LiftOff] Project created successfully.'']))))))))))))))"

section \<open>Properties of runs and results\<close>

text \<open>
  The FileTree contract on a returned value: a dict whose values are all \<open>str\<close> (its
  keys are strings already).
\<close>

fun is_str :: "pyval \<Rightarrow> bool" where
  "is_str (PStr _) = True"
| "is_str _ = False"

fun is_dict :: "pyval \<Rightarrow> bool" where
  "is_dict (PDict _) = True"
| "is_dict _ = False"

fun is_file_tree :: "pyval \<Rightarrow> bool" where
  "is_file_tree (PDict items) = list_all (\<lambda>(k, v). is_str v) items"
| "is_file_tree _ = False"

text \<open>Kinds of events: reads of the environment, calls that leave the process, the
  in-process model call, and the hand-over to the file writer.\<close>

fun reads_env :: "event \<Rightarrow> bool" where
  "reads_env (GetEnv _) = True"
| "reads_env _ = False"

fun network_call :: "event \<Rightarrow> bool" where
  "network_call (OpenAINew _) = True"
| "network_call (OpenAIChatCreate _ _ _) = True"
| "network_call (InferenceClientNew _ _) = True"
| "network_call (TextGeneration _ _ _) = True"
| "network_call (ChatCompletion _ _) = True"
| "network_call _ = False"

fun local_call :: "event \<Rightarrow> bool" where
  "local_call (PipelineCall _ _ _) = True"
| "local_call _ = False"

fun chat_retry :: "event \<Rightarrow> bool" where
  "chat_retry (ChatCompletion _ _) = True"
| "chat_retry _ = False"

fun writes_tree :: "event \<Rightarrow> bool" where
  "writes_tree (WriteFileTree _ _) = True"
| "writes_tree _ = False"

fun is_OpenAI :: "backend \<Rightarrow> bool" where
  "is_OpenAI (OpenAI_obj _) = True"
| "is_OpenAI (HuggingFace_obj _) = False"

section \<open>Sample runtimes\<close>

text \<open>
  Concrete libraries for the closed instances below. \<open>sample_loads\<close> agrees with
  \<open>json.loads\<close> on the three strings it is applied to there: \<open>{}\<close>, \<open>[]\<close> and \<open>oops\<close>.
\<close>

definition sample_loads :: "string \<Rightarrow> py_error + pyval" where
  "sample_loads s =
     (if s = ''{}'' then Inr (PDict [])
      else if s = ''[]'' then Inr (PList [])
      else Inl (PyError JSONDecodeError ''Expecting value: line 1 column 1 (char 0)''))"

definition sample_openai :: openai_client where
  "sample_openai = \<lparr>chat_completions_create = (\<lambda>model messages temperature. Inr [PStr ''{}''])\<rparr>"

definition sample_pipeline :: pipeline where
  "sample_pipeline = (\<lambda>prompt max_new_tokens do_sample. Inr [[(''generated_text'', PStr ''[]'')]])"

definition failing_client :: hf_client where
  "failing_client =
     \<lparr>text_generation = (\<lambda>prompt max_new_tokens temperature.
          Inl (PyError (OtherException ''HfHubHTTPError'') ''404 text-generation not supported'')),
      chat_completion = (\<lambda>messages max_tokens.
          Inl (PyError (OtherException ''HfHubHTTPError'') ''429 rate limited''))\<rparr>"

definition sample_rt :: runtime where
  "sample_rt =
     \<lparr>environ = (\<lambda>name. None),
      OpenAI = Some (\<lambda>key. Inr sample_openai),
      cuda_is_available = False,
      transformers_pipeline = (\<lambda>task model device_map dtype. Inr sample_pipeline),
      InferenceClient = Some (\<lambda>model tok. Inr failing_client),
      json_loads = sample_loads,
      py_repr = (\<lambda>v. ''?''),
      parse_intent = (\<lambda>prompt. Inr (PDict [])),
      build_meta_prompt = (\<lambda>prompt metadata. Inr prompt),
      validate_file_tree = (\<lambda>tree. Inr [''no README'']),
      write_file_tree = (\<lambda>tree root. Inr ())\<rparr>"

text \<open>The same with no local weights, and then also without \<open>huggingface_hub\<close>.\<close>

definition no_weights :: py_error where
  "no_weights = PyError (OtherException ''OSError'') ''no weights on disk''"

definition remote_rt :: runtime where
  "remote_rt = sample_rt\<lparr>transformers_pipeline := (\<lambda>task model device_map dtype. Inl no_weights)\<rparr>"

definition offline_rt :: runtime where
  "offline_rt = remote_rt\<lparr>InferenceClient := None\<rparr>"

section \<open>Sequencing\<close>

lemma fst_io_bind:
  "fst (io_bind m f) = fst m @ (case snd m of Inl e \<Rightarrow> [] | Inr x \<Rightarrow> fst (f x))"
  by (cases m) (auto simp: io_bind_def split: sum.splits prod.splits)

lemma snd_io_bind:
  "snd (io_bind m f) = (case snd m of Inl e \<Rightarrow> Inl e | Inr x \<Rightarrow> snd (f x))"
  by (cases m) (auto simp: io_bind_def split: sum.splits prod.splits)

lemma io_bind_all:
  assumes "list_all P (fst m)" and "\<And>x. snd m = Inr x \<Longrightarrow> list_all P (fst (f x))"
  shows "list_all P (fst (io_bind m f))"
  using assms by (cases "snd m") (simp_all add: fst_io_bind)

lemma or_getenv_falsy:
  "\<not> truthy x \<Longrightarrow> or_getenv rt x name = ([GetEnv name], Inr (environ rt name))"
  by (simp add: or_getenv_def io_bind_def emit_def returns_def)

lemma or_getenv_truthy:
  "truthy x \<Longrightarrow> or_getenv rt x name = ([], Inr x)"
  by (simp add: or_getenv_def returns_def)

section \<open>Backend selection\<close>

lemma choose_backend_openai:
  "truthy (api_key self) \<Longrightarrow>
     choose_backend rt self md =
       (Print [''[LiftOff] Using OpenAI backend.''] # fst (OpenAIBackend_init rt (the (api_key self))),
        map_sum id OpenAI_obj (snd (OpenAIBackend_init rt (the (api_key self)))))"
  by (cases "OpenAIBackend_init rt (the (api_key self))")
     (auto simp: choose_backend_def io_bind_def emit_def returns_def split: sum.splits)

lemma choose_backend_hf:
  "\<not> truthy (api_key self) \<Longrightarrow> truthy (hf_token self) \<Longrightarrow>
     choose_backend rt self md =
       (Print [''[LiftOff] Using HuggingFace Inference API backend.''] #
          fst (HuggingFaceBackend_init rt (hf_token self) None),
        map_sum id HuggingFace_obj (snd (HuggingFaceBackend_init rt (hf_token self) None)))"
  by (cases "HuggingFaceBackend_init rt (hf_token self) None")
     (auto simp: choose_backend_def io_bind_def emit_def returns_def split: sum.splits)

lemma choose_backend_none:
  "\<not> truthy (api_key self) \<Longrightarrow> \<not> truthy (hf_token self) \<Longrightarrow>
     choose_backend rt self md = ([], Inl (PyError RuntimeError no_backend))"
  by (simp add: choose_backend_def raises_def)

lemma map_sum_eq_Inr: "map_sum f g r = Inr b \<longleftrightarrow> (\<exists>x. r = Inr x \<and> b = g x)"
  by (cases r) auto

lemma choose_backend_kind:
  "choose_backend rt self md = (es, Inr b) \<Longrightarrow> is_OpenAI b = truthy (api_key self)"
  by (cases "truthy (api_key self)"; cases "truthy (hf_token self)")
     (auto simp: choose_backend_openai choose_backend_hf choose_backend_none map_sum_eq_Inr)

lemma no_backend_names:
  "sublist ''OPENAI_API_KEY'' no_backend \<and> sublist ''HUGGINGFACE_TOKEN'' no_backend \<and>
   sublist ''Set '' no_backend"
  by (simp add: no_backend_def nl_def sublist_Cons_right)


text \<open>
  Claim C1. Backend selection follows one fixed order. With an API key present the
  outcome of the selection is the outcome of constructing the OpenAI backend with that
  key, whether or not a token is present; with no key and a token present it is the
  outcome of constructing the HuggingFace backend with that token; with neither it is
  a \<open>RuntimeError\<close> whose message names both \<open>OPENAI_API_KEY\<close> and
  \<open>HUGGINGFACE_TOKEN\<close> and says to set one. Which class a selected backend has
  depends on the presence of the key alone, over all runtimes, metadata and values of
  the credentials.
\<close>

theorem choose_backend_priority:
  "(truthy (api_key self) \<longrightarrow>
      fst (choose_backend rt self md) =
        Print [''[LiftOff] Using OpenAI backend.''] # fst (OpenAIBackend_init rt (the (api_key self))) \<and>
      snd (choose_backend rt self md) =
        map_sum id OpenAI_obj (snd (OpenAIBackend_init rt (the (api_key self))))) \<and>
   (\<not> truthy (api_key self) \<and> truthy (hf_token self) \<longrightarrow>
      fst (choose_backend rt self md) =
        Print [''[LiftOff] Using HuggingFace Inference API backend.''] #
          fst (HuggingFaceBackend_init rt (hf_token self) None) \<and>
      snd (choose_backend rt self md) =
        map_sum id HuggingFace_obj (snd (HuggingFaceBackend_init rt (hf_token self) None))) \<and>
   (\<not> truthy (api_key self) \<and> \<not> truthy (hf_token self) \<longrightarrow>
      choose_backend rt self md = ([], Inl (PyError RuntimeError no_backend))) \<and>
   sublist ''OPENAI_API_KEY'' no_backend \<and> sublist ''HUGGINGFACE_TOKEN'' no_backend \<and>
   sublist ''Set '' no_backend \<and>
   (\<forall>rt' self' md' es b es' b'.
      truthy (api_key self') = truthy (api_key self) \<and>
      choose_backend rt self md = (es, Inr b) \<and> choose_backend rt' self' md' = (es', Inr b') \<longrightarrow>
      is_OpenAI b' = is_OpenAI b)"
proof -
  have kind: "\<forall>rt' self' md' es b es' b'.
      truthy (api_key self') = truthy (api_key self) \<and>
      choose_backend rt self md = (es, Inr b) \<and> choose_backend rt' self' md' = (es', Inr b') \<longrightarrow>
      is_OpenAI b' = is_OpenAI b"
    by (auto dest!: choose_backend_kind)
  show ?thesis
    using kind no_backend_names
    by (simp add: choose_backend_openai choose_backend_hf choose_backend_none)
qed

theorem choose_backend_priority_witness:
  "truthy (api_key \<lparr>api_key = Some ''sk-1'', hf_token = Some ''hf-1'', output_dir = ''out''\<rparr>) \<and>
   snd (choose_backend sample_rt \<lparr>api_key = Some ''sk-1'', hf_token = Some ''hf-1'', output_dir = ''out''\<rparr> PNone)
     = Inr (OpenAI_obj \<lparr>client = sample_openai\<rparr>) \<and>
   \<not> truthy (api_key \<lparr>api_key = Some [], hf_token = Some ''hf-1'', output_dir = ''out''\<rparr>) \<and>
   truthy (hf_token \<lparr>api_key = Some [], hf_token = Some ''hf-1'', output_dir = ''out''\<rparr>) \<and>
   snd (choose_backend sample_rt \<lparr>api_key = Some [], hf_token = Some ''hf-1'', output_dir = ''out''\<rparr> PNone)
     = Inr (HuggingFace_obj \<lparr>model_id = LOCAL_MODEL, token = Some ''hf-1'',
                              local_pipeline = Some sample_pipeline, remote_client = None\<rparr>) \<and>
   \<not> truthy (api_key \<lparr>api_key = None, hf_token = None, output_dir = ''out''\<rparr>) \<and>
   \<not> truthy (hf_token \<lparr>api_key = None, hf_token = None, output_dir = ''out''\<rparr>) \<and>
   choose_backend sample_rt \<lparr>api_key = None, hf_token = None, output_dir = ''out''\<rparr> PNone
     = ([], Inl (PyError RuntimeError no_backend))"
  using choose_backend_priority [of "\<lparr>api_key = Some ''sk-1'', hf_token = Some ''hf-1'', output_dir = ''out''\<rparr>" sample_rt PNone]
    choose_backend_priority [of "\<lparr>api_key = Some [], hf_token = Some ''hf-1'', output_dir = ''out''\<rparr>" sample_rt PNone]
    choose_backend_priority [of "\<lparr>api_key = None, hf_token = None, output_dir = ''out''\<rparr>" sample_rt PNone]
  by (simp add: truthy_def sample_rt_def OpenAIBackend_init_def HuggingFaceBackend_init_def
      load_local_def or_getenv_def io_bind_def call_def emit_def returns_def)

text \<open>
  Claim C9. The metadata is never read: backend selection and \<open>generate_project\<close>
  of both backends give the same events and the same result for any two metadata
  values.
\<close>

theorem metadata_never_read:
  "choose_backend rt self md1 = choose_backend rt self md2 \<and>
   OpenAIBackend_generate_project rt ob p md1 = OpenAIBackend_generate_project rt ob p md2 \<and>
   HuggingFaceBackend_generate_project rt hb p md1 = HuggingFaceBackend_generate_project rt hb p md2 \<and>
   generate_project rt b p md1 = generate_project rt b p md2"
  by (simp add: choose_backend_def OpenAIBackend_generate_project_def
      HuggingFaceBackend_generate_project_def generate_project_def split: backend.splits)

section \<open>Credentials\<close>

lemma LiftOff_init_eq:
  "LiftOff_init rt k t od =
     ((if truthy k then [] else [GetEnv ''OPENAI_API_KEY'']) @
      (if truthy t then [] else [GetEnv ''HUGGINGFACE_TOKEN'']),
      Inr \<lparr>api_key = (if truthy k then k else environ rt ''OPENAI_API_KEY''),
           hf_token = (if truthy t then t else environ rt ''HUGGINGFACE_TOKEN''),
           output_dir = od\<rparr>)"
  by (simp add: LiftOff_init_def or_getenv_falsy or_getenv_truthy io_bind_def returns_def)

text \<open>
  Claim C10. An empty string passed as a credential is as good as none: the
  constructor falls back to the environment variable exactly as for \<open>None\<close>, and
  a credential that is still falsy after that leaves backend selection as it is with
  the credential absent.
\<close>

theorem empty_credential_is_absent:
  "LiftOff_init rt (Some []) t od = LiftOff_init rt None t od \<and>
   LiftOff_init rt k (Some []) od = LiftOff_init rt k None od \<and>
   (\<exists>es self. LiftOff_init rt (Some []) t od = (es, Inr self) \<and>
      api_key self = environ rt ''OPENAI_API_KEY'') \<and>
   (\<exists>es self. LiftOff_init rt k (Some []) od = (es, Inr self) \<and>
      hf_token self = environ rt ''HUGGINGFACE_TOKEN'') \<and>
   (\<not> truthy (api_key self) \<longrightarrow>
      choose_backend rt' self md = choose_backend rt' (self\<lparr>api_key := None\<rparr>) md) \<and>
   (\<not> truthy (hf_token self) \<longrightarrow>
      choose_backend rt' self md = choose_backend rt' (self\<lparr>hf_token := None\<rparr>) md)"
  by (simp add: LiftOff_init_eq truthy_def choose_backend_def)

theorem empty_credential_is_absent_witness:
  "\<not> truthy (api_key \<lparr>api_key = Some [], hf_token = Some [], output_dir = ''out''\<rparr>) \<and>
   \<not> truthy (hf_token \<lparr>api_key = Some [], hf_token = Some [], output_dir = ''out''\<rparr>) \<and>
   choose_backend sample_rt \<lparr>api_key = Some [], hf_token = Some [], output_dir = ''out''\<rparr> PNone =
     choose_backend sample_rt \<lparr>api_key = None, hf_token = Some [], output_dir = ''out''\<rparr> PNone \<and>
   choose_backend sample_rt \<lparr>api_key = Some [], hf_token = Some [], output_dir = ''out''\<rparr> PNone =
     choose_backend sample_rt \<lparr>api_key = Some [], hf_token = None, output_dir = ''out''\<rparr> PNone \<and>
   LiftOff_init sample_rt (Some []) (Some []) ''out'' =
     ([GetEnv ''OPENAI_API_KEY'', GetEnv ''HUGGINGFACE_TOKEN''],
      Inr \<lparr>api_key = None, hf_token = None, output_dir = ''out''\<rparr>)"
  using empty_credential_is_absent
    [where rt = sample_rt and rt' = sample_rt and k = "Some []" and t = "Some []" and od = "''out''"
       and md = PNone and self = "\<lparr>api_key = Some [], hf_token = Some [], output_dir = ''out''\<rparr>"]
  by (simp add: truthy_def LiftOff_init_eq choose_backend_def sample_rt_def)

section \<open>Constructing the HuggingFace backend\<close>

lemma io_bind_Inr: "io_bind (es, Inr x) f = (es @ fst (f x), snd (f x))"
  by (simp add: io_bind_def split: prod.splits)

lemma io_bind_Inl: "io_bind (es, Inl e) f = (es, Inl e)"
  by (simp add: io_bind_def)

lemma load_local_eq:
  "load_local rt m =
     (let dtype = (if cuda_is_available rt then Float16 else Float32);
          r = transformers_pipeline rt ''text-generation'' m ''auto'' dtype
      in ([Print [''[Autoforge] Loading local model:'', m],
           PipelineNew ''text-generation'' m ''auto'' dtype] @
          (case r of Inl e \<Rightarrow> [] | Inr p \<Rightarrow> [Print [''[Autoforge] Local model loaded successfully.'']]),
          r))"
  by (cases "transformers_pipeline rt ''text-generation'' m ''auto''
               (if cuda_is_available rt then Float16 else Float32)")
     (simp_all add: load_local_def Let_def emit_def call_def returns_def io_bind_Inr io_bind_Inl)

lemma load_local_quiet:
  "list_all (\<lambda>ev. \<not> network_call ev \<and> \<not> reads_env ev) (fst (load_local rt m))"
  by (simp add: load_local_eq Let_def split: sum.splits)

lemma load_local_environ: "load_local (rt\<lparr>environ := env\<rparr>) m = load_local rt m"
  by (simp add: load_local_eq)

text \<open>The three ways out of \<open>HuggingFaceBackend.__init__\<close>.\<close>

lemma HuggingFaceBackend_init_local:
  assumes "snd (load_local rt (if truthy mid then the mid else LOCAL_MODEL)) = Inr p"
  shows "HuggingFaceBackend_init rt tok mid =
     (fst (or_getenv rt tok ''HUGGINGFACE_TOKEN'') @
        fst (load_local rt (if truthy mid then the mid else LOCAL_MODEL)),
      Inr \<lparr>model_id = (if truthy mid then the mid else LOCAL_MODEL),
           token = (if truthy tok then tok else environ rt ''HUGGINGFACE_TOKEN''),
           local_pipeline = Some p, remote_client = None\<rparr>)"
  using assms
  by (cases "load_local rt (if truthy mid then the mid else LOCAL_MODEL)"; cases "truthy tok")
     (simp_all add: HuggingFaceBackend_init_def Let_def or_getenv_truthy or_getenv_falsy io_bind_Inr)

lemma HuggingFaceBackend_init_remote:
  assumes "snd (load_local rt (if truthy mid then the mid else LOCAL_MODEL)) = Inl e"
      and "truthy (if truthy tok then tok else environ rt ''HUGGINGFACE_TOKEN'')"
      and "InferenceClient rt = Some new"
  shows "HuggingFaceBackend_init rt tok mid =
     (fst (or_getenv rt tok ''HUGGINGFACE_TOKEN'') @
        fst (load_local rt (if truthy mid then the mid else LOCAL_MODEL)) @
        [Print [''[Autoforge] Local model failed to load:'', exc_str e],
         Print [''[Autoforge] Falling back to HuggingFace Inference API.''],
         InferenceClientNew (if truthy mid then the mid else LOCAL_MODEL)
           (the (if truthy tok then tok else environ rt ''HUGGINGFACE_TOKEN''))],
      map_sum id (\<lambda>c. \<lparr>model_id = (if truthy mid then the mid else LOCAL_MODEL),
           token = (if truthy tok then tok else environ rt ''HUGGINGFACE_TOKEN''),
           local_pipeline = None, remote_client = Some c\<rparr>)
        (new (if truthy mid then the mid else LOCAL_MODEL)
           (the (if truthy tok then tok else environ rt ''HUGGINGFACE_TOKEN''))))"
  using assms
  by (cases "load_local rt (if truthy mid then the mid else LOCAL_MODEL)"; cases "truthy tok";
      cases "new (if truthy mid then the mid else LOCAL_MODEL)
           (the (if truthy tok then tok else environ rt ''HUGGINGFACE_TOKEN''))")
     (simp_all add: HuggingFaceBackend_init_def Let_def or_getenv_truthy or_getenv_falsy
        io_bind_Inr io_bind_Inl emit_def call_def returns_def)

lemma HuggingFaceBackend_init_unavailable:
  assumes "snd (load_local rt (if truthy mid then the mid else LOCAL_MODEL)) = Inl e"
      and "\<not> truthy (if truthy tok then tok else environ rt ''HUGGINGFACE_TOKEN'') \<or>
           InferenceClient rt = None"
  shows "HuggingFaceBackend_init rt tok mid =
     (fst (or_getenv rt tok ''HUGGINGFACE_TOKEN'') @
        fst (load_local rt (if truthy mid then the mid else LOCAL_MODEL)) @
        [Print [''[Autoforge] Local model failed to load:'', exc_str e]],
      Inl (PyError RuntimeError (could_not_load (if truthy mid then the mid else LOCAL_MODEL))))"
  using assms
  by (cases "load_local rt (if truthy mid then the mid else LOCAL_MODEL)"; cases "truthy tok")
     (auto simp add: HuggingFaceBackend_init_def Let_def or_getenv_truthy or_getenv_falsy
        io_bind_Inr io_bind_Inl emit_def raises_def)


lemma could_not_load_names:
  "sublist m (could_not_load m) \<and> sublist ''Install it via'' (could_not_load m) \<and>
   sublist ''set HUGGINGFACE_TOKEN'' (could_not_load m)"
proof -
  let ?tail = "quote @ ''.'' @ nl @ ''Install it via:  transformers, accelerate, bitsandbytes'' @ nl @
     ''Or set HUGGINGFACE_TOKEN for API fallback.''"
  have split: "could_not_load m = (''Could not load local model '' @ quote @ m) @ ?tail"
    by (simp add: could_not_load_def)
  have tail: "sublist ?tail (could_not_load m)"
    unfolding split by (rule sublist_append_leftI)
  have "sublist ''Install it via'' ?tail" and "sublist ''set HUGGINGFACE_TOKEN'' ?tail"
    by (simp_all add: quote_def nl_def sublist_Cons_right)
  with tail have "sublist ''Install it via'' (could_not_load m)"
    and "sublist ''set HUGGINGFACE_TOKEN'' (could_not_load m)"
    by (blast intro: sublist_order.order.trans)+
  moreover have "sublist m (could_not_load m)"
    unfolding could_not_load_def
    by (metis append.assoc sublist_appendI)
  ultimately show ?thesis by simp
qed

text \<open>
  Claim C2, as the code has it. When the local model fails to load and either no token
  is configured (argument and environment both falsy) or \<open>InferenceClient\<close> could not
  be imported, the constructor raises a \<open>RuntimeError\<close>. Its message names the model
  identifier and the remedy (install the local runtime, or set \<open>HUGGINGFACE_TOKEN\<close>).
  The cause of the local failure is printed before the raise; it is not part of the
  message. No client is constructed and no hosted call is made.
\<close>

theorem unavailable_raises:
  assumes "m = (if truthy mid then the mid else LOCAL_MODEL)"
      and "t = (if truthy tok then tok else environ rt ''HUGGINGFACE_TOKEN'')"
      and "snd (load_local rt m) = Inl e"
      and "\<not> truthy t \<or> InferenceClient rt = None"
  shows "snd (HuggingFaceBackend_init rt tok mid) = Inl (PyError RuntimeError (could_not_load m)) \<and>
         sublist m (could_not_load m) \<and>
         sublist ''Install it via'' (could_not_load m) \<and>
         sublist ''set HUGGINGFACE_TOKEN'' (could_not_load m) \<and>
         list_all (\<lambda>ev. \<not> network_call ev) (fst (HuggingFaceBackend_init rt tok mid)) \<and>
         Print [''[Autoforge] Local model failed to load:'', exc_str e]
           \<in> set (fst (HuggingFaceBackend_init rt tok mid))"
proof -
  have init: "HuggingFaceBackend_init rt tok mid =
     (fst (or_getenv rt tok ''HUGGINGFACE_TOKEN'') @ fst (load_local rt m) @
        [Print [''[Autoforge] Local model failed to load:'', exc_str e]],
      Inl (PyError RuntimeError (could_not_load m)))"
    using assms HuggingFaceBackend_init_unavailable [of rt mid e tok] by simp
  have "list_all (\<lambda>ev. \<not> network_call ev) (fst (or_getenv rt tok ''HUGGINGFACE_TOKEN''))"
    by (cases "truthy tok") (simp_all add: or_getenv_truthy or_getenv_falsy)
  moreover have "list_all (\<lambda>ev. \<not> network_call ev) (fst (load_local rt m))"
    using load_local_quiet [of rt m] by (simp add: list_all_iff)
  ultimately show ?thesis
    using could_not_load_names [of m] by (simp add: init)
qed

theorem unavailable_raises_witness:
  "snd (load_local offline_rt LOCAL_MODEL) = Inl no_weights \<and>
   InferenceClient offline_rt = None \<and>
   snd (HuggingFaceBackend_init offline_rt (Some ''hf-1'') None) =
     Inl (PyError RuntimeError (could_not_load LOCAL_MODEL)) \<and>
   list_all (\<lambda>ev. \<not> network_call ev) (fst (HuggingFaceBackend_init offline_rt (Some ''hf-1'') None)) \<and>
   Print [''[Autoforge] Local model failed to load:'', ''no weights on disk'']
     \<in> set (fst (HuggingFaceBackend_init offline_rt (Some ''hf-1'') None))"
proof -
  have local: "snd (load_local offline_rt LOCAL_MODEL) = Inl no_weights"
    by (simp add: load_local_eq offline_rt_def remote_rt_def sample_rt_def)
  have hub: "InferenceClient offline_rt = None"
    by (simp add: offline_rt_def)
  show ?thesis
    using local hub
      unavailable_raises [where rt = offline_rt and mid = None and tok = "Some ''hf-1''"
        and m = LOCAL_MODEL and t = "Some ''hf-1''" and e = no_weights]
    by (simp add: truthy_def no_weights_def)
qed

theorem cause_not_in_message:
  "snd (load_local offline_rt LOCAL_MODEL) = Inl no_weights \<and>
   snd (HuggingFaceBackend_init offline_rt None None) =
     Inl (PyError RuntimeError (could_not_load LOCAL_MODEL)) \<and>
   \<not> sublist (exc_str no_weights) (could_not_load LOCAL_MODEL)"
proof -
  have local: "snd (load_local offline_rt LOCAL_MODEL) = Inl no_weights"
    by (simp add: load_local_eq offline_rt_def remote_rt_def sample_rt_def)
  have "snd (HuggingFaceBackend_init offline_rt None None) =
     Inl (PyError RuntimeError (could_not_load LOCAL_MODEL))"
    using local HuggingFaceBackend_init_unavailable [of offline_rt None no_weights None]
    by (simp add: truthy_def offline_rt_def)
  moreover have "\<not> sublist (exc_str no_weights) (could_not_load LOCAL_MODEL)"
    by (simp add: no_weights_def could_not_load_def LOCAL_MODEL_def quote_def nl_def
        sublist_Cons_right)
  ultimately show ?thesis using local by simp
qed


section \<open>Generation\<close>

lemma run_local_eq:
  "local_pipeline self = Some p \<Longrightarrow>
     run_local self prompt =
       ([PipelineCall prompt 1024 False],
        case p prompt 1024 False of
          Inl e \<Rightarrow> Inl e
        | Inr out \<Rightarrow> (case first out of Inl e \<Rightarrow> Inl e | Inr d \<Rightarrow> generated_text d))"
  by (cases "p prompt 1024 False")
     (simp_all add: run_local_def call_def raises_def io_bind_Inr io_bind_Inl split: sum.splits)

lemma fst_run_hf_text: "fst (run_hf_text rt c prompt) = [TextGeneration prompt 1024 (2 / 10)]"
  by (cases "text_generation c prompt 1024 (2 / 10)")
     (simp_all add: run_hf_text_def call_def returns_def raises_def io_bind_Inr io_bind_Inl
        split: pyval.splits)

lemma run_hf_text_fails:
  "text_generation c prompt 1024 (2 / 10) = Inl e \<Longrightarrow>
     run_hf_text rt c prompt = ([TextGeneration prompt 1024 (2 / 10)], Inl e)"
  by (simp add: run_hf_text_def call_def io_bind_Inl)

lemma run_hf_chat_eq:
  "run_hf_chat c prompt =
     ([ChatCompletion [(''user'', prompt)] 1024],
      case chat_completion c [(''user'', prompt)] 1024 of
        Inl e \<Rightarrow> Inl e
      | Inr choices \<Rightarrow> first choices)"
  by (cases "chat_completion c [(''user'', prompt)] 1024")
     (simp_all add: run_hf_chat_def call_def io_bind_Inr io_bind_Inl)

lemma run_hf_eq:
  "remote_client self = Some c \<Longrightarrow>
     run_hf rt self prompt =
       (case snd (run_hf_text rt c prompt) of
          Inr r \<Rightarrow> ([TextGeneration prompt 1024 (2 / 10)], Inr r)
        | Inl e \<Rightarrow>
            ([TextGeneration prompt 1024 (2 / 10), ChatCompletion [(''user'', prompt)] 1024],
             snd (run_hf_chat c prompt)))"
  using fst_run_hf_text [of rt c prompt]
  by (cases "run_hf_text rt c prompt")
     (auto simp: run_hf_def run_hf_chat_eq io_bind_Inr split: sum.splits)

lemma HuggingFaceBackend_generate_project_eq:
  "HuggingFaceBackend_generate_project rt self prompt md =
     (let run = (if local_pipeline self \<noteq> None then run_local self prompt else run_hf rt self prompt)
      in (fst run, case snd run of Inl e \<Rightarrow> Inl e | Inr raw \<Rightarrow> HuggingFaceBackend_parse rt raw))"
  by (cases "if local_pipeline self \<noteq> None then run_local self prompt else run_hf rt self prompt")
     (auto simp: HuggingFaceBackend_generate_project_def Let_def io_bind_Inr io_bind_Inl
           split: sum.splits)

lemma local_ready_events:
  "local_pipeline self = Some p \<Longrightarrow>
     fst (HuggingFaceBackend_generate_project rt self prompt md) = [PipelineCall prompt 1024 False]"
  by (simp add: HuggingFaceBackend_generate_project_eq run_local_eq)

lemma remote_ready_events:
  "local_pipeline self = None \<Longrightarrow> remote_client self = Some c \<Longrightarrow>
     fst (HuggingFaceBackend_generate_project rt self prompt md) =
       (if isl (snd (run_hf_text rt c prompt))
        then [TextGeneration prompt 1024 (2 / 10), ChatCompletion [(''user'', prompt)] 1024]
        else [TextGeneration prompt 1024 (2 / 10)])"
  by (simp add: HuggingFaceBackend_generate_project_eq run_hf_eq split: sum.splits)

text \<open>
  Claim C3, as the code has it. No method but \<open>__init__\<close> assigns a field, so the
  state is the one the constructor left. If the local model loads, construction
  returns with the pipeline set and every \<open>generate_project\<close> call makes exactly the
  one in-process pipeline call. If it fails to load, a token is configured,
  \<open>InferenceClient\<close> is importable and its constructor returns, construction returns
  with the client set and every call makes the hosted text generation call, followed
  by the hosted chat completion call when the first step failed, and no pipeline call.
  For any object whatever, one call never mixes the two paths.
\<close>

theorem managed_backend_paths:
  assumes "m = (if truthy mid then the mid else LOCAL_MODEL)"
      and "t = (if truthy tok then tok else environ rt ''HUGGINGFACE_TOKEN'')"
  shows
   "(\<forall>p. snd (load_local rt m) = Inr p \<longrightarrow>
       snd (HuggingFaceBackend_init rt tok mid) =
         Inr \<lparr>model_id = m, token = t, local_pipeline = Some p, remote_client = None\<rparr> \<and>
       (\<forall>rt' prompt md.
          fst (HuggingFaceBackend_generate_project rt'
                 \<lparr>model_id = m, token = t, local_pipeline = Some p, remote_client = None\<rparr> prompt md)
            = [PipelineCall prompt 1024 False])) \<and>
    (\<forall>e new c. snd (load_local rt m) = Inl e \<and> truthy t \<and> InferenceClient rt = Some new \<and>
         new m (the t) = Inr c \<longrightarrow>
       snd (HuggingFaceBackend_init rt tok mid) =
         Inr \<lparr>model_id = m, token = t, local_pipeline = None, remote_client = Some c\<rparr> \<and>
       (\<forall>rt' prompt md.
          fst (HuggingFaceBackend_generate_project rt'
                 \<lparr>model_id = m, token = t, local_pipeline = None, remote_client = Some c\<rparr> prompt md)
            = (if isl (snd (run_hf_text rt' c prompt))
               then [TextGeneration prompt 1024 (2 / 10), ChatCompletion [(''user'', prompt)] 1024]
               else [TextGeneration prompt 1024 (2 / 10)]))) \<and>
    (\<forall>self rt' prompt md.
       filter network_call (fst (HuggingFaceBackend_generate_project rt' self prompt md)) = [] \<or>
       filter local_call (fst (HuggingFaceBackend_generate_project rt' self prompt md)) = [])"
proof -
  have paths: "filter network_call (fst (HuggingFaceBackend_generate_project rt' self prompt md)) = [] \<or>
       filter local_call (fst (HuggingFaceBackend_generate_project rt' self prompt md)) = []"
    for rt' self prompt md
  proof (cases "local_pipeline self")
    case (Some p)
    then show ?thesis by (simp add: local_ready_events)
  next
    case None
    show ?thesis
    proof (cases "remote_client self")
      case (Some c)
      with None show ?thesis by (simp add: remote_ready_events)
    next
      case no_client: None
      with None show ?thesis
        by (simp add: HuggingFaceBackend_generate_project_eq run_hf_def raises_def)
    qed
  qed
  show ?thesis
    using assms paths
    by (auto simp: HuggingFaceBackend_init_local HuggingFaceBackend_init_remote
          local_ready_events remote_ready_events)
qed


theorem managed_backend_paths_witness:
  "snd (load_local sample_rt LOCAL_MODEL) = Inr sample_pipeline \<and>
   snd (HuggingFaceBackend_init sample_rt (Some ''hf-1'') None) =
     Inr \<lparr>model_id = LOCAL_MODEL, token = Some ''hf-1'',
          local_pipeline = Some sample_pipeline, remote_client = None\<rparr> \<and>
   fst (HuggingFaceBackend_generate_project sample_rt
          \<lparr>model_id = LOCAL_MODEL, token = Some ''hf-1'',
           local_pipeline = Some sample_pipeline, remote_client = None\<rparr> ''p'' PNone)
     = [PipelineCall ''p'' 1024 False] \<and>
   snd (load_local remote_rt LOCAL_MODEL) = Inl no_weights \<and>
   truthy (Some ''hf-1'') \<and>
   InferenceClient remote_rt = Some (\<lambda>model tok. Inr failing_client) \<and>
   snd (HuggingFaceBackend_init remote_rt (Some ''hf-1'') None) =
     Inr \<lparr>model_id = LOCAL_MODEL, token = Some ''hf-1'',
          local_pipeline = None, remote_client = Some failing_client\<rparr> \<and>
   fst (HuggingFaceBackend_generate_project remote_rt
          \<lparr>model_id = LOCAL_MODEL, token = Some ''hf-1'',
           local_pipeline = None, remote_client = Some failing_client\<rparr> ''p'' PNone)
     = [TextGeneration ''p'' 1024 (2 / 10), ChatCompletion [(''user'', ''p'')] 1024]"
proof -
  have ok: "snd (load_local sample_rt LOCAL_MODEL) = Inr sample_pipeline"
    by (simp add: load_local_eq sample_rt_def)
  have ko: "snd (load_local remote_rt LOCAL_MODEL) = Inl no_weights"
    by (simp add: load_local_eq remote_rt_def sample_rt_def)
  have hub: "InferenceClient remote_rt = Some (\<lambda>model tok. Inr failing_client)"
    by (simp add: remote_rt_def sample_rt_def)
  have fails: "isl (snd (run_hf_text remote_rt failing_client ''p''))"
    by (simp add: run_hf_text_fails failing_client_def)
  show ?thesis
    using ok ko hub fails
      managed_backend_paths [where rt = sample_rt and mid = None and tok = "Some ''hf-1''"
        and m = LOCAL_MODEL and t = "Some ''hf-1''"]
      managed_backend_paths [where rt = remote_rt and mid = None and tok = "Some ''hf-1''"
        and m = LOCAL_MODEL and t = "Some ''hf-1''"]
    by (simp add: truthy_def)
qed

theorem token_without_client_raises:
  "snd (load_local offline_rt LOCAL_MODEL) = Inl no_weights \<and>
   truthy (Some ''hf-1'') \<and>
   snd (HuggingFaceBackend_init offline_rt (Some ''hf-1'') None) =
     Inl (PyError RuntimeError (could_not_load LOCAL_MODEL))"
proof -
  have local: "snd (load_local offline_rt LOCAL_MODEL) = Inl no_weights"
    by (simp add: load_local_eq offline_rt_def remote_rt_def sample_rt_def)
  show ?thesis
    using local HuggingFaceBackend_init_unavailable [of offline_rt None no_weights "Some ''hf-1''"]
    by (simp add: truthy_def offline_rt_def)
qed

text \<open>
  Claim C6, as the code has it. With the client set and no pipeline, a failing hosted
  text generation call is followed by exactly one chat completion call whose only
  message is the prompt under the role \<open>user\<close>. The outcome of the run is the outcome
  of that second call: its own exception when it raises, the parse of its first choice
  when it answers. The exception of the first call appears nowhere in the outcome.
\<close>

theorem remote_retry:
  assumes "local_pipeline self = None" and "remote_client self = Some c"
      and "text_generation c prompt 1024 (2 / 10) = Inl e0"
  shows "fst (HuggingFaceBackend_generate_project rt self prompt md) =
           [TextGeneration prompt 1024 (2 / 10), ChatCompletion [(''user'', prompt)] 1024] \<and>
         length (filter chat_retry (fst (HuggingFaceBackend_generate_project rt self prompt md))) = 1 \<and>
         run_hf rt self prompt =
           ([TextGeneration prompt 1024 (2 / 10), ChatCompletion [(''user'', prompt)] 1024],
            snd (run_hf_chat c prompt)) \<and>
         (\<forall>e1. chat_completion c [(''user'', prompt)] 1024 = Inl e1 \<longrightarrow>
            snd (HuggingFaceBackend_generate_project rt self prompt md) = Inl e1) \<and>
         (\<forall>raw rest. chat_completion c [(''user'', prompt)] 1024 = Inr (raw # rest) \<longrightarrow>
            snd (HuggingFaceBackend_generate_project rt self prompt md) =
              HuggingFaceBackend_parse rt raw)"
proof -
  have run: "run_hf rt self prompt =
           ([TextGeneration prompt 1024 (2 / 10), ChatCompletion [(''user'', prompt)] 1024],
            snd (run_hf_chat c prompt))"
    using assms by (simp add: run_hf_eq run_hf_text_fails)
  then show ?thesis
    using assms(1)
    by (simp add: HuggingFaceBackend_generate_project_eq run_hf_chat_eq first_def)
qed

theorem remote_retry_witness:
  "text_generation failing_client ''p'' 1024 (2 / 10) =
     Inl (PyError (OtherException ''HfHubHTTPError'') ''404 text-generation not supported'') \<and>
   chat_completion failing_client [(''user'', ''p'')] 1024 =
     Inl (PyError (OtherException ''HfHubHTTPError'') ''429 rate limited'') \<and>
   HuggingFaceBackend_generate_project sample_rt
      \<lparr>model_id = LOCAL_MODEL, token = Some ''hf-1'',
       local_pipeline = None, remote_client = Some failing_client\<rparr> ''p'' PNone =
     ([TextGeneration ''p'' 1024 (2 / 10), ChatCompletion [(''user'', ''p'')] 1024],
      Inl (PyError (OtherException ''HfHubHTTPError'') ''429 rate limited''))"
proof -
  have tg: "text_generation failing_client ''p'' 1024 (2 / 10) =
     Inl (PyError (OtherException ''HfHubHTTPError'') ''404 text-generation not supported'')"
    and chat: "chat_completion failing_client [(''user'', ''p'')] 1024 =
     Inl (PyError (OtherException ''HfHubHTTPError'') ''429 rate limited'')"
    by (simp_all add: failing_client_def)
  show ?thesis
    using tg chat
      remote_retry [where self = "\<lparr>model_id = LOCAL_MODEL, token = Some ''hf-1'',
        local_pipeline = None, remote_client = Some failing_client\<rparr>" and c = failing_client
        and prompt = "''p''" and rt = sample_rt and md = PNone]
    by (simp add: prod_eq_iff)
qed

theorem first_error_not_in_message:
  "snd (HuggingFaceBackend_init remote_rt (Some ''hf-1'') None) =
     Inr \<lparr>model_id = LOCAL_MODEL, token = Some ''hf-1'',
          local_pipeline = None, remote_client = Some failing_client\<rparr> \<and>
   text_generation failing_client ''p'' 1024 (2 / 10) =
     Inl (PyError (OtherException ''HfHubHTTPError'') ''404 text-generation not supported'') \<and>
   snd (HuggingFaceBackend_generate_project remote_rt
      \<lparr>model_id = LOCAL_MODEL, token = Some ''hf-1'',
       local_pipeline = None, remote_client = Some failing_client\<rparr> ''p'' PNone) =
     Inl (PyError (OtherException ''HfHubHTTPError'') ''429 rate limited'') \<and>
   \<not> sublist ''404 text-generation not supported'' ''429 rate limited''"
proof -
  have ko: "snd (load_local remote_rt LOCAL_MODEL) = Inl no_weights"
    by (simp add: load_local_eq remote_rt_def sample_rt_def)
  have init: "snd (HuggingFaceBackend_init remote_rt (Some ''hf-1'') None) =
     Inr \<lparr>model_id = LOCAL_MODEL, token = Some ''hf-1'',
          local_pipeline = None, remote_client = Some failing_client\<rparr>"
    using ko HuggingFaceBackend_init_remote
      [of remote_rt None no_weights "Some ''hf-1''" "\<lambda>model tok. Inr failing_client"]
    by (simp add: truthy_def remote_rt_def sample_rt_def)
  have tg: "text_generation failing_client ''p'' 1024 (2 / 10) =
     Inl (PyError (OtherException ''HfHubHTTPError'') ''404 text-generation not supported'')"
    by (simp add: failing_client_def)
  have gen: "snd (HuggingFaceBackend_generate_project remote_rt
      \<lparr>model_id = LOCAL_MODEL, token = Some ''hf-1'',
       local_pipeline = None, remote_client = Some failing_client\<rparr> ''p'' PNone) =
     Inl (PyError (OtherException ''HfHubHTTPError'') ''429 rate limited'')"
  proof -
    have chat: "chat_completion failing_client [(''user'', ''p'')] 1024 =
       Inl (PyError (OtherException ''HfHubHTTPError'') ''429 rate limited'')"
      by (simp add: failing_client_def)
    show ?thesis
      by (simp add: HuggingFaceBackend_generate_project_eq run_hf_eq run_hf_text_fails [OF tg]
          run_hf_chat_eq chat)
  qed
  have "\<not> sublist ''404 text-generation not supported'' ''429 rate limited''"
    by (simp add: sublist_Cons_right)
  with init tg gen show ?thesis by simp
qed

section \<open>Parsing the raw output\<close>

lemma OpenAIBackend_generate_project_eq:
  "OpenAIBackend_generate_project rt self mp md =
     ([OpenAIChatCreate ''gpt-4o-mini'' [(''system'', system_message), (''user'', mp)] (2 / 10)],
      case chat_completions_create (client self) ''gpt-4o-mini''
             [(''system'', system_message), (''user'', mp)] (2 / 10) of
        Inl e \<Rightarrow> Inl e
      | Inr choices \<Rightarrow>
          (case first choices of Inl e \<Rightarrow> Inl e | Inr raw \<Rightarrow> OpenAIBackend_parse rt raw))"
  by (cases "chat_completions_create (client self) ''gpt-4o-mini''
             [(''system'', system_message), (''user'', mp)] (2 / 10)")
     (simp_all add: OpenAIBackend_generate_project_def Let_def call_def raises_def
        io_bind_Inr io_bind_Inl split: sum.splits)

text \<open>
  Claim C5. When \<open>json.loads\<close> rejects the raw string with a \<open>JSONDecodeError\<close>, both
  backends raise a \<open>ValueError\<close> whose message holds the parser's message and a prefix
  of the raw output: its first 400 characters in the HuggingFace backend, its first 200
  in the OpenAI backend. The message is at most 57 + 400 characters longer than the
  parser's message, however long the raw output is, and \<open>generate_project\<close> returns
  no value.
\<close>

theorem malformed_json_raises:
  assumes "json_loads rt raw = Inl (PyError JSONDecodeError pm)"
  shows "HuggingFaceBackend_parse rt (PStr raw) =
           Inl (PyError ValueError
             (''Model did not return valid JSON.'' @ nl @ ''Error: '' @ pm @ nl @ nl @
              ''Raw output:'' @ nl @ take 400 raw @ ''...'')) \<and>
         OpenAIBackend_parse rt (PStr raw) =
           Inl (PyError ValueError
             (''OpenAI backend returned non-JSON output: '' @ pm @ '': '' @ take 200 raw)) \<and>
         (\<forall>err. HuggingFaceBackend_parse rt (PStr raw) = Inl err \<or>
                OpenAIBackend_parse rt (PStr raw) = Inl err \<longrightarrow>
            exc_type err = ValueError \<and> sublist pm (exc_str err) \<and>
            length (exc_str err) \<le> length pm + 57 + min 400 (length raw) \<and>
            (sublist raw (exc_str err) \<longrightarrow> length raw \<le> length pm + 457)) \<and>
         (\<forall>self mp md rest.
            chat_completions_create (client self) ''gpt-4o-mini''
              [(''system'', system_message), (''user'', mp)] (2 / 10) = Inr (PStr raw # rest) \<longrightarrow>
            isl (snd (OpenAIBackend_generate_project rt self mp md))) \<and>
         (\<forall>self mp md.
            snd (if local_pipeline self \<noteq> None then run_local self mp else run_hf rt self mp)
              = Inr (PStr raw) \<longrightarrow>
            isl (snd (HuggingFaceBackend_generate_project rt self mp md)))"
proof -
  let ?hf = "''Model did not return valid JSON.'' @ nl @ ''Error: '' @ pm @ nl @ nl @
              ''Raw output:'' @ nl @ take 400 raw @ ''...''"
  let ?oa = "''OpenAI backend returned non-JSON output: '' @ pm @ '': '' @ take 200 raw"
  have hf: "HuggingFaceBackend_parse rt (PStr raw) = Inl (PyError ValueError ?hf)"
    using assms by (simp add: HuggingFaceBackend_parse_def loads_def)
  have oa: "OpenAIBackend_parse rt (PStr raw) = Inl (PyError ValueError ?oa)"
    using assms by (simp add: OpenAIBackend_parse_def loads_def)
  have pm_hf: "sublist pm ?hf"
    by (metis append.assoc sublist_appendI)
  have pm_oa: "sublist pm ?oa"
    by (metis append.assoc sublist_appendI)
  have len_hf: "length ?hf = length pm + 57 + min 400 (length raw)"
    by (simp add: nl_def min_def)
  have len_oa: "length ?oa = length pm + 43 + min 200 (length raw)"
    by (simp add: min_def)
  have whole_hf: "length raw \<le> length pm + 457" if "sublist raw ?hf"
  proof -
    from that have "length raw \<le> length ?hf" by (rule sublist_length_le)
    then show ?thesis unfolding len_hf by linarith
  qed
  have whole_oa: "length raw \<le> length pm + 457" if "sublist raw ?oa"
  proof -
    from that have "length raw \<le> length ?oa" by (rule sublist_length_le)
    then show ?thesis unfolding len_oa by linarith
  qed
  have bounds: "\<forall>err. HuggingFaceBackend_parse rt (PStr raw) = Inl err \<or>
                OpenAIBackend_parse rt (PStr raw) = Inl err \<longrightarrow>
            exc_type err = ValueError \<and> sublist pm (exc_str err) \<and>
            length (exc_str err) \<le> length pm + 57 + min 400 (length raw) \<and>
            (sublist raw (exc_str err) \<longrightarrow> length raw \<le> length pm + 457)"
  proof (intro allI impI)
    fix err
    assume "HuggingFaceBackend_parse rt (PStr raw) = Inl err \<or>
            OpenAIBackend_parse rt (PStr raw) = Inl err"
    then consider "err = PyError ValueError ?hf" | "err = PyError ValueError ?oa"
      using hf oa by auto
    then show "exc_type err = ValueError \<and> sublist pm (exc_str err) \<and>
            length (exc_str err) \<le> length pm + 57 + min 400 (length raw) \<and>
            (sublist raw (exc_str err) \<longrightarrow> length raw \<le> length pm + 457)"
    proof cases
      case 1
      then show ?thesis using pm_hf len_hf whole_hf by simp
    next
      case 2
      have "length ?oa \<le> length pm + 57 + min 400 (length raw)"
        unfolding len_oa by simp
      with 2 show ?thesis using pm_oa whole_oa by simp
    qed
  qed
  have gen_oa: "\<forall>self mp md rest.
            chat_completions_create (client self) ''gpt-4o-mini''
              [(''system'', system_message), (''user'', mp)] (2 / 10) = Inr (PStr raw # rest) \<longrightarrow>
            isl (snd (OpenAIBackend_generate_project rt self mp md))"
    by (simp add: OpenAIBackend_generate_project_eq first_def oa)
  have gen_hf: "\<forall>self mp md.
            snd (if local_pipeline self \<noteq> None then run_local self mp else run_hf rt self mp)
              = Inr (PStr raw) \<longrightarrow>
            isl (snd (HuggingFaceBackend_generate_project rt self mp md))"
    by (simp add: HuggingFaceBackend_generate_project_eq Let_def hf)
  from hf oa bounds gen_oa gen_hf show ?thesis by blast
qed


theorem malformed_json_raises_witness:
  "json_loads sample_rt (replicate 500 CHR ''x'') =
     Inl (PyError JSONDecodeError ''Expecting value: line 1 column 1 (char 0)'') \<and>
   HuggingFaceBackend_parse sample_rt (PStr (replicate 500 CHR ''x'')) =
     Inl (PyError ValueError
       (''Model did not return valid JSON.'' @ nl @
        ''Error: Expecting value: line 1 column 1 (char 0)'' @ nl @ nl @
        ''Raw output:'' @ nl @ replicate 400 CHR ''x'' @ ''...'')) \<and>
   OpenAIBackend_parse sample_rt (PStr (replicate 500 CHR ''x'')) =
     Inl (PyError ValueError
       (''OpenAI backend returned non-JSON output: Expecting value: line 1 column 1 (char 0): '' @
        replicate 200 CHR ''x''))"
proof -
  have "length (replicate 500 CHR ''x'') \<noteq> length ''{}''"
    and "length (replicate 500 CHR ''x'') \<noteq> length ''[]''"
    by simp_all
  then have "replicate 500 CHR ''x'' \<noteq> ''{}''" and "replicate 500 CHR ''x'' \<noteq> ''[]''"
    by metis+
  then have bad: "json_loads sample_rt (replicate 500 CHR ''x'') =
     Inl (PyError JSONDecodeError ''Expecting value: line 1 column 1 (char 0)'')"
    by (simp add: sample_rt_def sample_loads_def)
  show ?thesis
    using bad malformed_json_raises [OF bad] by simp
qed

section \<open>The create pipeline\<close>

lemma OpenAIBackend_init_events:
  "fst (OpenAIBackend_init rt key) = (if OpenAI rt = None then [] else [OpenAINew key])"
  by (cases "OpenAI rt")
     (auto simp: OpenAIBackend_init_def raises_def call_def returns_def fst_io_bind split: sum.splits)

lemma HuggingFaceBackend_init_quiet:
  assumes "truthy tok"
  shows "list_all (\<lambda>ev. \<not> writes_tree ev \<and> \<not> reads_env ev) (fst (HuggingFaceBackend_init rt tok mid))"
proof -
  let ?m = "if truthy mid then the mid else LOCAL_MODEL"
  have load: "list_all (\<lambda>ev. \<not> writes_tree ev \<and> \<not> reads_env ev) (fst (load_local rt ?m))"
    by (simp add: load_local_eq Let_def split: sum.splits)
  show ?thesis
  proof (cases "snd (load_local rt ?m)")
    case (Inr p)
    then show ?thesis
      using assms load by (simp add: HuggingFaceBackend_init_local or_getenv_truthy)
  next
    case (Inl e)
    show ?thesis
    proof (cases "InferenceClient rt")
      case None
      with Inl show ?thesis
        using assms load by (simp add: HuggingFaceBackend_init_unavailable or_getenv_truthy)
    next
      case (Some new)
      with Inl show ?thesis
        using assms load by (simp add: HuggingFaceBackend_init_remote or_getenv_truthy)
    qed
  qed
qed

lemma choose_backend_quiet:
  "list_all (\<lambda>ev. \<not> writes_tree ev \<and> \<not> reads_env ev) (fst (choose_backend rt self md))"
  by (cases "truthy (api_key self)"; cases "truthy (hf_token self)")
     (simp_all add: choose_backend_openai choose_backend_hf choose_backend_none
        OpenAIBackend_init_events HuggingFaceBackend_init_quiet)

lemma generate_project_quiet:
  "list_all (\<lambda>ev. \<not> writes_tree ev \<and> \<not> reads_env ev) (fst (generate_project rt b mp md))"
proof (cases b)
  case (OpenAI_obj self)
  then show ?thesis
    by (simp add: generate_project_def OpenAIBackend_generate_project_eq)
next
  case (HuggingFace_obj self)
  have "list_all (\<lambda>ev. \<not> writes_tree ev \<and> \<not> reads_env ev)
          (fst (HuggingFaceBackend_generate_project rt self mp md))"
  proof (cases "local_pipeline self")
    case (Some p)
    then show ?thesis by (simp add: local_ready_events)
  next
    case None
    show ?thesis
    proof (cases "remote_client self")
      case (Some c)
      with None show ?thesis by (simp add: remote_ready_events)
    next
      case no_client: None
      with None show ?thesis
        by (simp add: HuggingFaceBackend_generate_project_eq run_hf_def raises_def)
    qed
  qed
  with HuggingFace_obj show ?thesis by (simp add: generate_project_def)
qed

lemma print_issues_quiet:
  "list_all (\<lambda>ev. \<not> writes_tree ev \<and> \<not> reads_env ev) (fst (print_issues issues))"
  by (simp add: print_issues_def returns_def list_all_iff)

lemma filter_quiet:
  "list_all (\<lambda>ev. \<not> writes_tree ev \<and> \<not> reads_env ev) es \<Longrightarrow>
     filter writes_tree es = [] \<and> filter reads_env es = []"
  by (induction es) auto


lemma create_eq:
  assumes "parse_intent rt prompt = Inr md"
      and "snd (choose_backend rt self md) = Inr b"
      and "build_meta_prompt rt prompt md = Inr mp"
      and "snd (generate_project rt b mp md) = Inr tree"
      and "validate_file_tree rt tree = Inr issues"
  shows "create rt self prompt od =
     (let target = (if truthy od then the od else output_dir self) in
      ([Print [''[LiftOff] Parsing intent...''], ParseIntent prompt,
        Print [''[LiftOff] Selecting backend...'']] @
       fst (choose_backend rt self md) @
       [Print [''[LiftOff] Building meta-prompt...''], BuildMetaPrompt prompt md,
        Print [''[LiftOff] Generating project from backend...'']] @
       fst (generate_project rt b mp md) @
       [Print [''[LiftOff] Validating scaffold...''], ValidateFileTree tree] @
       fst (print_issues issues) @
       [Print [''[LiftOff] Writing project files to: '' @ target], WriteFileTree tree target] @
       (case write_file_tree rt tree target of
          Inl e \<Rightarrow> []
        | Inr u \<Rightarrow> [Print [''[LiftOff] Project created successfully.'']]),
       write_file_tree rt tree target))"
proof -
  obtain es1 where c: "choose_backend rt self md = (es1, Inr b)"
    using assms(2) by (cases "choose_backend rt self md") simp
  obtain es2 where g: "generate_project rt b mp md = (es2, Inr tree)"
    using assms(4) by (cases "generate_project rt b mp md") simp
  obtain es3 where p: "print_issues issues = (es3, Inr ())"
    by (cases "issues = []") (simp_all add: print_issues_def returns_def)
  show ?thesis
    using assms(1,3,5)
    by (cases "write_file_tree rt tree (if truthy od then the od else output_dir self)")
       (simp_all add: create_def c g p Let_def emit_def call_def io_bind_Inr io_bind_Inl)
qed

text \<open>
  Claim C7. Once the backend has returned a tree and the validator has returned its
  issues, whatever they are, \<open>create\<close> goes on: every issue is printed, the file
  writer is called exactly once, with the tree the backend returned and the target
  directory, and the outcome of \<open>create\<close> is the outcome of the writer.
\<close>

theorem validation_is_advisory:
  assumes "parse_intent rt prompt = Inr md"
      and "snd (choose_backend rt self md) = Inr b"
      and "build_meta_prompt rt prompt md = Inr mp"
      and "snd (generate_project rt b mp md) = Inr tree"
      and "validate_file_tree rt tree = Inr issues"
      and "target = (if truthy od then the od else output_dir self)"
  shows "snd (create rt self prompt od) = write_file_tree rt tree target \<and>
         filter writes_tree (fst (create rt self prompt od)) = [WriteFileTree tree target] \<and>
         list_all (\<lambda>issue. Print [''   -'', issue] \<in> set (fst (create rt self prompt od))) issues"
proof -
  note eq = create_eq [OF assms(1-5), of od]
  have "filter writes_tree (fst (choose_backend rt self md)) = []"
    and "filter writes_tree (fst (generate_project rt b mp md)) = []"
    and "filter writes_tree (fst (print_issues issues)) = []"
    using choose_backend_quiet generate_project_quiet print_issues_quiet
    by (simp_all add: filter_quiet)
  then have written: "filter writes_tree (fst (create rt self prompt od)) = [WriteFileTree tree target]"
    by (simp add: eq assms(6) Let_def split: sum.splits)
  have "list_all (\<lambda>issue. Print [''   -'', issue] \<in> set (fst (print_issues issues))) issues"
    by (simp add: print_issues_def list_all_iff)
  then have reported:
    "list_all (\<lambda>issue. Print [''   -'', issue] \<in> set (fst (create rt self prompt od))) issues"
    by (simp add: eq Let_def list_all_iff)
  from written reported show ?thesis
    by (simp add: eq assms(6) Let_def)
qed

theorem validation_is_advisory_witness:
  "parse_intent sample_rt ''a todo app'' = Inr (PDict []) \<and>
   snd (choose_backend sample_rt \<lparr>api_key = Some ''sk-1'', hf_token = None, output_dir = ''out''\<rparr> (PDict []))
     = Inr (OpenAI_obj \<lparr>client = sample_openai\<rparr>) \<and>
   build_meta_prompt sample_rt ''a todo app'' (PDict []) = Inr ''a todo app'' \<and>
   snd (generate_project sample_rt (OpenAI_obj \<lparr>client = sample_openai\<rparr>) ''a todo app'' (PDict []))
     = Inr (PDict []) \<and>
   validate_file_tree sample_rt (PDict []) = Inr [''no README''] \<and>
   snd (create sample_rt \<lparr>api_key = Some ''sk-1'', hf_token = None, output_dir = ''out''\<rparr>
          ''a todo app'' None) = Inr () \<and>
   filter writes_tree
     (fst (create sample_rt \<lparr>api_key = Some ''sk-1'', hf_token = None, output_dir = ''out''\<rparr>
             ''a todo app'' None)) = [WriteFileTree (PDict []) ''out''] \<and>
   Print [''   -'', ''no README'']
     \<in> set (fst (create sample_rt \<lparr>api_key = Some ''sk-1'', hf_token = None, output_dir = ''out''\<rparr>
                 ''a todo app'' None))"
proof -
  let ?self = "\<lparr>api_key = Some ''sk-1'', hf_token = None, output_dir = ''out''\<rparr>"
  have parse: "parse_intent sample_rt ''a todo app'' = Inr (PDict [])"
    and build: "build_meta_prompt sample_rt ''a todo app'' (PDict []) = Inr ''a todo app''"
    and valid: "validate_file_tree sample_rt (PDict []) = Inr [''no README'']"
    and wr: "write_file_tree sample_rt (PDict []) ''out'' = Inr ()"
    by (simp_all add: sample_rt_def)
  have choose: "snd (choose_backend sample_rt ?self (PDict [])) = Inr (OpenAI_obj \<lparr>client = sample_openai\<rparr>)"
    by (simp add: choose_backend_openai truthy_def OpenAIBackend_init_def sample_rt_def
        call_def returns_def io_bind_Inr)
  have gen: "snd (generate_project sample_rt (OpenAI_obj \<lparr>client = sample_openai\<rparr>) ''a todo app'' (PDict []))
     = Inr (PDict [])"
    by (simp add: generate_project_def OpenAIBackend_generate_project_eq sample_openai_def first_def
        OpenAIBackend_parse_def loads_def sample_rt_def sample_loads_def coerce_items_def)
  show ?thesis
    using parse choose build gen valid wr
      validation_is_advisory [OF parse choose build gen valid, of "''out''" None]
    by (simp add: truthy_def)
qed

section \<open>The environment after construction\<close>

lemma HuggingFaceBackend_init_environ:
  "truthy tok \<Longrightarrow>
     HuggingFaceBackend_init (rt\<lparr>environ := env\<rparr>) tok mid = HuggingFaceBackend_init rt tok mid"
  by (simp add: HuggingFaceBackend_init_def or_getenv_truthy load_local_environ
      cong del: if_weak_cong prod.case_cong_weak sum.case_cong_weak)

lemma choose_backend_environ:
  "choose_backend (rt\<lparr>environ := env\<rparr>) self md = choose_backend rt self md"
  by (simp add: choose_backend_def HuggingFaceBackend_init_environ OpenAIBackend_init_def)

lemma loads_environ: "loads (rt\<lparr>environ := env\<rparr>) raw = loads rt raw"
  by (cases raw) (simp_all add: loads_def)

lemma py_str_environ: "py_str (rt\<lparr>environ := env\<rparr>) v = py_str rt v"
  by (cases v) (simp_all add: py_str_def)

lemma OpenAIBackend_parse_environ:
  "OpenAIBackend_parse (rt\<lparr>environ := env\<rparr>) raw = OpenAIBackend_parse rt raw"
  by (simp add: OpenAIBackend_parse_def loads_environ coerce_items_def py_str_environ
      cong del: sum.case_cong_weak pyval.case_cong_weak)

lemma HuggingFaceBackend_parse_environ:
  "HuggingFaceBackend_parse (rt\<lparr>environ := env\<rparr>) raw = HuggingFaceBackend_parse rt raw"
  by (simp add: HuggingFaceBackend_parse_def loads_environ)

lemma run_hf_environ: "run_hf (rt\<lparr>environ := env\<rparr>) self prompt = run_hf rt self prompt"
  by (simp add: run_hf_def run_hf_text_def py_str_environ
      cong del: option.case_cong_weak pyval.case_cong_weak)

lemma generate_project_environ:
  "generate_project (rt\<lparr>environ := env\<rparr>) b mp md = generate_project rt b mp md"
  by (cases b)
     (simp_all add: generate_project_def OpenAIBackend_generate_project_def
        HuggingFaceBackend_generate_project_def OpenAIBackend_parse_environ
        HuggingFaceBackend_parse_environ run_hf_environ
        cong del: sum.case_cong_weak)

lemma create_quiet:
  "list_all (\<lambda>ev. \<not> reads_env ev) (fst (create rt self prompt od))"
  unfolding create_def Let_def
  by (intro io_bind_all)
     (simp_all add: emit_def call_def list_all_iff,
      insert choose_backend_quiet generate_project_quiet print_issues_quiet,
      auto simp: list_all_iff)

text \<open>
  Claim C8. The constructor resolves each credential once: it is the argument when that
  is truthy, and otherwise the value of the environment variable, read once. After
  construction nothing reads the environment: \<open>create\<close>, backend selection and
  \<open>generate_project\<close> record no read, and \<open>create\<close> does the same whatever the
  environment is by then. (The backend constructor's own \<open>os.getenv\<close> stands behind an
  \<open>or\<close> whose left side is the truthy token it was given.)
\<close>

theorem credentials_resolved_once:
  "LiftOff_init rt k t od =
     ((if truthy k then [] else [GetEnv ''OPENAI_API_KEY'']) @
      (if truthy t then [] else [GetEnv ''HUGGINGFACE_TOKEN'']),
      Inr \<lparr>api_key = (if truthy k then k else environ rt ''OPENAI_API_KEY''),
           hf_token = (if truthy t then t else environ rt ''HUGGINGFACE_TOKEN''),
           output_dir = od\<rparr>) \<and>
   filter reads_env (fst (create rt' self prompt out)) = [] \<and>
   filter reads_env (fst (choose_backend rt' self md)) = [] \<and>
   filter reads_env (fst (generate_project rt' b mp md)) = [] \<and>
   create (rt'\<lparr>environ := env\<rparr>) self prompt out = create rt' self prompt out"
proof -
  have "filter reads_env (fst (create rt' self prompt out)) = []"
    using create_quiet [of rt' self prompt out]
    by (auto simp: filter_empty_conv list_all_iff)
  moreover have "create (rt'\<lparr>environ := env\<rparr>) self prompt out = create rt' self prompt out"
    by (simp add: create_def choose_backend_environ generate_project_environ)
  ultimately show ?thesis
    using choose_backend_quiet [of rt' self md] generate_project_quiet [of rt' b mp md]
    by (simp add: LiftOff_init_eq filter_quiet)
qed


section \<open>The shape of what generate_project returns\<close>

lemma update_keeps_str:
  "list_all (\<lambda>(k, v). is_str v) d \<Longrightarrow> is_str v \<Longrightarrow>
     list_all (\<lambda>(k, v). is_str v) (AList.update k v d)"
  by (induction d) auto

lemma coerce_items_str: "list_all (\<lambda>(k, v). is_str v) (coerce_items rt items)"
proof -
  have "list_all (\<lambda>(k, v). is_str v) d \<Longrightarrow>
        list_all (\<lambda>(k, v). is_str v)
          (foldl (\<lambda>d (k, v). AList.update k (PStr (py_str rt v)) d) d items)" for d
    by (induction items arbitrary: d) (auto simp: update_keeps_str)
  then show ?thesis by (simp add: coerce_items_def)
qed

text \<open>
  The OpenAI backend keeps the contract: what it returns is a dict of strings, and a
  parsed value that is not a dict is refused.
\<close>

lemma OpenAIBackend_parse_contract:
  "(OpenAIBackend_parse rt raw = Inr v \<longrightarrow> is_file_tree v) \<and>
   (loads rt raw = Inr v \<and> \<not> is_dict v \<longrightarrow>
      OpenAIBackend_parse rt raw =
        Inl (PyError ValueError ''Expected JSON object mapping file paths to contents''))"
  by (cases "loads rt raw"; cases v)
     (auto simp: OpenAIBackend_parse_def coerce_items_str split: pyval.splits exc_class.splits)

text \<open>
  Claim C4 at a failing input. The HuggingFace backend is selected by a token, the
  local model loads, and the text it generates is the JSON array \<open>[]\<close>:
  \<open>generate_project\<close> returns the parsed list, which is no file tree, where the claim
  has it raise.
\<close>

theorem huggingface_returns_list:
  "snd (choose_backend sample_rt \<lparr>api_key = None, hf_token = Some ''hf-1'', output_dir = ''out''\<rparr> PNone) =
     Inr (HuggingFace_obj \<lparr>model_id = LOCAL_MODEL, token = Some ''hf-1'',
                            local_pipeline = Some sample_pipeline, remote_client = None\<rparr>) \<and>
   sample_pipeline ''p'' 1024 False = Inr [[(''generated_text'', PStr ''[]'')]] \<and>
   json_loads sample_rt ''[]'' = Inr (PList []) \<and>
   generate_project sample_rt
     (HuggingFace_obj \<lparr>model_id = LOCAL_MODEL, token = Some ''hf-1'',
                       local_pipeline = Some sample_pipeline, remote_client = None\<rparr>) ''p'' PNone =
     ([PipelineCall ''p'' 1024 False], Inr (PList [])) \<and>
   \<not> is_file_tree (PList [])"
proof -
  have ok: "snd (load_local sample_rt LOCAL_MODEL) = Inr sample_pipeline"
    by (simp add: load_local_eq sample_rt_def)
  have chosen: "snd (choose_backend sample_rt
      \<lparr>api_key = None, hf_token = Some ''hf-1'', output_dir = ''out''\<rparr> PNone) =
     Inr (HuggingFace_obj \<lparr>model_id = LOCAL_MODEL, token = Some ''hf-1'',
                            local_pipeline = Some sample_pipeline, remote_client = None\<rparr>)"
    using ok HuggingFaceBackend_init_local [of sample_rt None sample_pipeline "Some ''hf-1''"]
    by (simp add: choose_backend_hf truthy_def)
  have out: "sample_pipeline ''p'' 1024 False = Inr [[(''generated_text'', PStr ''[]'')]]"
    by (simp add: sample_pipeline_def)
  have parsed: "json_loads sample_rt ''[]'' = Inr (PList [])"
    by (simp add: sample_rt_def sample_loads_def)
  have "generate_project sample_rt
     (HuggingFace_obj \<lparr>model_id = LOCAL_MODEL, token = Some ''hf-1'',
                       local_pipeline = Some sample_pipeline, remote_client = None\<rparr>) ''p'' PNone =
     ([PipelineCall ''p'' 1024 False], Inr (PList []))"
    by (simp add: generate_project_def HuggingFaceBackend_generate_project_eq run_local_eq out
        first_def generated_text_def HuggingFaceBackend_parse_def loads_def parsed)
  with chosen out parsed show ?thesis by simp
qed

end
